theory Spec2Isabelle
  imports Main
begin

section \<open>Runtime values\<close>

text \<open>
  The OIDC code handles values whose static type says little about what arrives at run
  time: the result of a user callback is \<^verbatim>\<open>unknown\<close>, a server reply is a
  \<^verbatim>\<open>Document\<close>. They are modelled as JavaScript values. A plain object
  (\<open>JSObject\<close>) is the ordered list of its own properties; its prototype is the
  built-in one, which has none of the properties this code reads. An object made from
  another one (\<^verbatim>\<open>Object.create(proto)\<close>, an instance of a class) is \<open>JSDerived\<close>:
  its own properties and the object it inherits from. An array is the object whose keys
  are its indices and \<^verbatim>\<open>length\<close>; numbers are integers, since the code only tests
  their presence. Strings are byte strings (UTF-8).
\<close>

datatype JSValue =
    JSUndefined
  | JSNull
  | JSBoolean bool
  | JSNumber int
  | JSString string
  | JSFunction string
  | JSObject "(string \<times> JSValue) list"
  | JSDerived "(string \<times> JSValue) list" JSValue

type_synonym Document = "(string \<times> JSValue) list"

text \<open>The errors the code throws, and the failures of its collaborators.\<close>

datatype error =
    MongoInvalidArgumentError string
  | MongoMissingCredentialsError string
  | MongoDriverError string
  | MongoGCPError string
  | MongoAWSError string
  | TypeError string
  | ExternalFailure string

text \<open>\<^verbatim>\<open>!!v\<close>: the truthiness test of the language.\<close>

fun truthy :: "JSValue \<Rightarrow> bool" where
  "truthy JSUndefined = False"
| "truthy JSNull = False"
| "truthy (JSBoolean b) = b"
| "truthy (JSNumber n) = (n \<noteq> 0)"
| "truthy (JSString s) = (s \<noteq> [])"
| "truthy (JSFunction f) = True"
| "truthy (JSObject ps) = True"
| "truthy (JSDerived ps proto) = True"

text \<open>\<^verbatim>\<open>typeof v\<close>.\<close>

fun typeof :: "JSValue \<Rightarrow> string" where
  "typeof JSUndefined = ''undefined''"
| "typeof JSNull = ''object''"
| "typeof (JSBoolean b) = ''boolean''"
| "typeof (JSNumber n) = ''number''"
| "typeof (JSString s) = ''string''"
| "typeof (JSFunction f) = ''function''"
| "typeof (JSObject ps) = ''object''"
| "typeof (JSDerived ps proto) = ''object''"

text \<open>
  Looking a property up along the prototype chain: the object's own property if it has
  one, else that of the object it inherits from; \<^verbatim>\<open>undefined\<close> when the chain ends.
\<close>

fun inherited :: "JSValue \<Rightarrow> string \<Rightarrow> JSValue" where
  "inherited (JSObject ps) k = (case map_of ps k of None \<Rightarrow> JSUndefined | Some v \<Rightarrow> v)"
| "inherited (JSDerived ps proto) k =
     (case map_of ps k of None \<Rightarrow> inherited proto k | Some v \<Rightarrow> v)"
| "inherited v k = JSUndefined"

text \<open>
  \<^verbatim>\<open>v.k\<close>: reading a property of \<^verbatim>\<open>undefined\<close> or \<^verbatim>\<open>null\<close> throws a
  TypeError; a property an object does not have, itself or through its prototypes,
  reads as \<^verbatim>\<open>undefined\<close>.
\<close>

fun member :: "JSValue \<Rightarrow> string \<Rightarrow> error + JSValue" where
  "member JSUndefined k = Inl (TypeError (''Cannot read properties of undefined (reading '' @ k @ '')''))"
| "member JSNull k = Inl (TypeError (''Cannot read properties of null (reading '' @ k @ '')''))"
| "member (JSObject ps) k = Inr (case map_of ps k of None \<Rightarrow> JSUndefined | Some v \<Rightarrow> v)"
| "member (JSDerived ps proto) k =
     Inr (case map_of ps k of None \<Rightarrow> inherited proto k | Some v \<Rightarrow> v)"
| "member v k = Inr JSUndefined"

text \<open>\<^verbatim>\<open>v?.k\<close>: optional chaining gives \<^verbatim>\<open>undefined\<close> where \<^verbatim>\<open>v.k\<close> would throw.\<close>

definition optional_member :: "JSValue \<Rightarrow> string \<Rightarrow> JSValue" where
  "optional_member v k = (case member v k of Inl e \<Rightarrow> JSUndefined | Inr x \<Rightarrow> x)"

text \<open>
  \<^verbatim>\<open>document.k = v\<close>: an existing property keeps its place and takes the new value, a
  new one is added at the end.
\<close>

fun set_property :: "Document \<Rightarrow> string \<Rightarrow> JSValue \<Rightarrow> Document" where
  "set_property [] k v = [(k, v)]"
| "set_property ((k', v') # ps) k v =
     (if k' = k then (k, v) # ps else (k', v') # set_property ps k v)"

text \<open>
  \<^verbatim>\<open>k in v\<close> and \<^verbatim>\<open>Object.getOwnPropertyNames(v)\<close>, for a value that is an object.
  The operator \<^verbatim>\<open>in\<close> follows the prototype chain; \<^verbatim>\<open>getOwnPropertyNames\<close> lists
  the own properties only.
\<close>

fun has_property :: "string \<Rightarrow> JSValue \<Rightarrow> bool" where
  "has_property k (JSObject ps) = (k \<in> set (map fst ps))"
| "has_property k (JSDerived ps proto) = (k \<in> set (map fst ps) \<or> has_property k proto)"
| "has_property k v = False"

fun getOwnPropertyNames :: "JSValue \<Rightarrow> string list" where
  "getOwnPropertyNames (JSObject ps) = map fst ps"
| "getOwnPropertyNames (JSDerived ps proto) = map fst ps"
| "getOwnPropertyNames v = []"

section \<open>Credentials and callbacks\<close>

record OIDCCallbackParams =
  timeoutContext :: nat
  version :: nat
  idpInfo :: JSValue

text \<open>A callback returns a promise: it resolves to some value, or rejects.\<close>

type_synonym OIDCCallbackFunction = "OIDCCallbackParams \<Rightarrow> error + JSValue"

record AuthMechanismProperties =
  ENVIRONMENT :: "string option"
  OIDC_CALLBACK :: "OIDCCallbackFunction option"
  OIDC_HUMAN_CALLBACK :: "OIDCCallbackFunction option"
  TOKEN_AUDIENCE :: "string option"

record MongoCredentials =
  source :: string
  mechanismProperties :: AuthMechanismProperties

text \<open>
  \<^verbatim>\<open>OIDCCallbackInfo\<close>. The field \<open>callback\<close> is whatever the property held, so it is
  optional here as it is at run time.
\<close>

record OIDCCallbackInfo =
  callback :: "OIDCCallbackFunction option"
  isHumanWorkflow :: bool

definition OIDC_VERSION :: nat where
  "OIDC_VERSION = 1"

definition HUMAN_TIMEOUT_MS :: nat where
  "HUMAN_TIMEOUT_MS = 300000"

definition RESULT_PROPERTIES :: "string list" where
  "RESULT_PROPERTIES = [''accessToken'', ''expiresInSeconds'', ''refreshToken'']"

definition CALLBACK_RESULT_ERROR :: string where
  "CALLBACK_RESULT_ERROR =
     ''User provided OIDC callbacks must return a valid object with an accessToken.''"

definition NO_CALLBACK :: string where
  "NO_CALLBACK = ''No OIDC_CALLBACK or OIDC_HUMAN_CALLBACK provided for callback workflow.''"

text \<open>\<^verbatim>\<open>!p\<close> for an optional property: true when it is not set.\<close>

fun unset :: "'a option \<Rightarrow> bool" where
  "unset None = True"
| "unset (Some x) = False"

text \<open>\<^verbatim>\<open>getCallback\<close> (callback\_workflow.ts).\<close>

definition getCallback :: "AuthMechanismProperties \<Rightarrow> error + OIDCCallbackInfo" where
  "getCallback properties =
     (if unset (OIDC_CALLBACK properties) \<or> unset (OIDC_HUMAN_CALLBACK properties)
      then Inl (MongoMissingCredentialsError NO_CALLBACK)
      else if \<not> unset (OIDC_CALLBACK properties)
      then Inr \<lparr>callback = OIDC_CALLBACK properties, isHumanWorkflow = False\<rparr>
      else Inr \<lparr>callback = OIDC_HUMAN_CALLBACK properties, isHumanWorkflow = True\<rparr>)"

text \<open>\<^verbatim>\<open>isCallbackResultInvalid\<close> (callback\_workflow.ts).\<close>

definition isCallbackResultInvalid :: "JSValue \<Rightarrow> bool" where
  "isCallbackResultInvalid tokenResult =
     (if tokenResult = JSUndefined \<or> tokenResult = JSNull \<or> typeof tokenResult \<noteq> ''object''
      then True
      else if \<not> has_property ''accessToken'' tokenResult then True
      else \<not> list_all (\<lambda>prop. prop \<in> set RESULT_PROPERTIES) (getOwnPropertyNames tokenResult))"

section \<open>The workflow registry\<close>

datatype Workflow =
    CallbackWorkflow
  | AwsMachineWorkflow
  | AzureMachineWorkflow
  | GCPMachineWorkflow

text \<open>\<^verbatim>\<open>OIDC_WORKFLOWS\<close>: the map after the four \<^verbatim>\<open>set\<close> calls of mongodb\_oidc.ts.\<close>

definition OIDC_WORKFLOWS :: "string \<rightharpoonup> Workflow" where
  "OIDC_WORKFLOWS =
     ((((Map.empty
        (''callback'' \<mapsto> CallbackWorkflow))
        (''aws'' \<mapsto> AwsMachineWorkflow))
        (''azure'' \<mapsto> AzureMachineWorkflow))
        (''gcp'' \<mapsto> GCPMachineWorkflow))"

text \<open>\<^verbatim>\<open>providerName || 'callback'\<close>: an unset or empty name gives the default.\<close>

fun or_default :: "string option \<Rightarrow> string \<Rightarrow> string" where
  "or_default None d = d"
| "or_default (Some s) d = (if s = [] then d else s)"

text \<open>A property inside a template literal.\<close>

fun template :: "string option \<Rightarrow> string" where
  "template None = ''undefined''"
| "template (Some s) = s"

text \<open>\<^verbatim>\<open>getWorkflow\<close> (mongodb\_oidc.ts).\<close>

definition getWorkflow :: "MongoCredentials \<Rightarrow> error + Workflow" where
  "getWorkflow credentials =
     (let providerName = ENVIRONMENT (mechanismProperties credentials)
      in case OIDC_WORKFLOWS (or_default providerName ''callback'') of
           None \<Rightarrow> Inl (MongoInvalidArgumentError
                     (''Could not load workflow for provider ''
                        @ template (ENVIRONMENT (mechanismProperties credentials))))
         | Some workflow \<Rightarrow> Inr workflow)"

section \<open>The token cache\<close>

text \<open>\<^verbatim>\<open>TokenCache\<close> (token\_cache.ts): one optional field.\<close>

record TokenCache =
  tokenResult :: JSValue

definition TokenCache_hasToken :: "TokenCache \<Rightarrow> bool" where
  "TokenCache_hasToken this = truthy (tokenResult this)"

definition TokenCache_get :: "TokenCache \<Rightarrow> error + JSValue" where
  "TokenCache_get this =
     (if \<not> truthy (tokenResult this) then Inl (MongoDriverError ''no token'')
      else Inr (tokenResult this))"

definition TokenCache_put :: "TokenCache \<Rightarrow> JSValue \<Rightarrow> TokenCache" where
  "TokenCache_put this result = this\<lparr>tokenResult := result\<rparr>"

definition TokenCache_remove :: "TokenCache \<Rightarrow> TokenCache" where
  "TokenCache_remove this = this\<lparr>tokenResult := JSUndefined\<rparr>"

section \<open>Effects\<close>

text \<open>
  What a call does besides returning is kept in a \<open>World\<close>: the state of the cache
  object the caller passed (\<open>None\<close> when the optional \<^verbatim>\<open>cache\<close> argument is absent)
  and the trace of the calls made to the outside, in order. The entry of a callback
  invocation records whether the callback invoked was the human one.
\<close>

record RequestOptions =
  json :: bool
  headers :: "(string \<times> string) list"

datatype Event =
    CommandSent string Document
  | CallbackInvoked bool OIDCCallbackParams
  | FileRead string string
  | HttpRequest string RequestOptions

record World =
  tokenCache :: "TokenCache option"
  trace :: "Event list"

text \<open>
  The connection is an external collaborator: its answer to a command may depend on
  everything that happened before, and it may fail.
\<close>

type_synonym Connection = "Event list \<Rightarrow> string \<Rightarrow> Document \<Rightarrow> error + JSValue"

definition command :: "Connection \<Rightarrow> string \<Rightarrow> Document \<Rightarrow> World \<Rightarrow> (error + JSValue) \<times> World" where
  "command connection namespace document w =
     (connection (trace w) namespace document,
      w\<lparr>trace := trace w @ [CommandSent namespace document]\<rparr>)"

text \<open>
  The functions the workflow imports from modules that are not part of the sources at
  hand (command\_builders.ts, utils.ts, bson) are parameters of the model.
\<close>

record Imports =
  startCommandDocument :: "MongoCredentials \<Rightarrow> Document"
  finishCommandDocument :: "JSValue \<Rightarrow> JSValue \<Rightarrow> Document"
  ns :: "string \<Rightarrow> string"
  BSON_deserialize :: "JSValue \<Rightarrow> error + JSValue"

section \<open>The callback workflow\<close>

text \<open>\<^verbatim>\<open>CallbackWorkflow.speculativeAuth\<close>.\<close>

definition speculativeAuth :: "Imports \<Rightarrow> MongoCredentials \<Rightarrow> World \<Rightarrow> (error + JSValue) \<times> World" where
  "speculativeAuth imp credentials w =
     (let document = startCommandDocument imp credentials;
          document = set_property document ''db'' (JSString (source credentials))
      in (Inr (JSObject [(''speculativeAuthenticate'', JSObject document)]), w))"

text \<open>\<^verbatim>\<open>CallbackWorkflow.startAuthentication\<close>.\<close>

definition startAuthentication ::
  "Imports \<Rightarrow> Connection \<Rightarrow> MongoCredentials \<Rightarrow> JSValue \<Rightarrow> World \<Rightarrow> (error + JSValue) \<times> World" where
  "startAuthentication imp connection credentials response w =
     (if truthy (optional_member response ''speculativeAuthenticate'')
      then (member response ''speculativeAuthenticate'', w)
      else command connection (ns imp (source credentials))
             (startCommandDocument imp credentials) w)"

text \<open>\<^verbatim>\<open>CallbackWorkflow.finishAuthentication\<close>.\<close>

definition finishAuthentication ::
  "Imports \<Rightarrow> Connection \<Rightarrow> MongoCredentials \<Rightarrow> JSValue \<Rightarrow> JSValue \<Rightarrow> World \<Rightarrow> (error + JSValue) \<times> World" where
  "finishAuthentication imp connection credentials token conversationId w =
     (case member token ''accessToken'' of
        Inl e \<Rightarrow> (Inl e, w)
      | Inr accessToken \<Rightarrow>
          command connection (ns imp (source credentials))
            (finishCommandDocument imp accessToken conversationId) w)"

text \<open>\<^verbatim>\<open>CallbackWorkflow.fetchAccessToken\<close>.\<close>

definition fetchAccessToken ::
  "Connection \<Rightarrow> MongoCredentials \<Rightarrow> JSValue \<Rightarrow> OIDCCallbackInfo \<Rightarrow> World \<Rightarrow> (error + JSValue) \<times> World" where
  "fetchAccessToken connection credentials idp callbackInfo w =
     (let params = \<lparr>timeoutContext =
                      (if isHumanWorkflow callbackInfo then HUMAN_TIMEOUT_MS else HUMAN_TIMEOUT_MS),
                    version = OIDC_VERSION,
                    idpInfo = idp\<rparr>
      in case callback callbackInfo of
           None \<Rightarrow> (Inl (TypeError ''callbackInfo.callback is not a function''), w)
         | Some f \<Rightarrow>
             (let w' = w\<lparr>trace := trace w @ [CallbackInvoked (isHumanWorkflow callbackInfo) params]\<rparr>
              in case f params of
                   Inl e \<Rightarrow> (Inl e, w')
                 | Inr result \<Rightarrow>
                     if isCallbackResultInvalid result
                     then (Inl (MongoMissingCredentialsError CALLBACK_RESULT_ERROR), w')
                     else (Inr result, w')))"

text \<open>\<^verbatim>\<open>startDocument.payload.buffer\<close>, then \<^verbatim>\<open>BSON.deserialize\<close>.\<close>

definition deserialize_payload :: "Imports \<Rightarrow> JSValue \<Rightarrow> error + JSValue" where
  "deserialize_payload imp startDocument =
     (case member startDocument ''payload'' of
        Inl e \<Rightarrow> Inl e
      | Inr payload \<Rightarrow>
          (case member payload ''buffer'' of
             Inl e \<Rightarrow> Inl e
           | Inr buffer \<Rightarrow> BSON_deserialize imp buffer))"

text \<open>
  \<^verbatim>\<open>cache?.hasToken()\<close>, \<^verbatim>\<open>cache.get()\<close>, \<^verbatim>\<open>cache?.put(tokenResult)\<close> and
  \<^verbatim>\<open>cache?.remove()\<close> on the optional cache: without a cache, \<^verbatim>\<open>?.\<close> gives
  \<^verbatim>\<open>undefined\<close> and does nothing, and the call without \<^verbatim>\<open>?\<close> throws.
\<close>

definition cache_hasToken :: "World \<Rightarrow> bool" where
  "cache_hasToken w = (case tokenCache w of None \<Rightarrow> False | Some c \<Rightarrow> TokenCache_hasToken c)"

definition cache_get :: "World \<Rightarrow> error + JSValue" where
  "cache_get w =
     (case tokenCache w of
        None \<Rightarrow> Inl (TypeError ''Cannot read properties of undefined (reading get)'')
      | Some c \<Rightarrow> TokenCache_get c)"

definition cache_put :: "JSValue \<Rightarrow> World \<Rightarrow> World" where
  "cache_put result w =
     w\<lparr>tokenCache := (case tokenCache w of None \<Rightarrow> None | Some c \<Rightarrow> Some (TokenCache_put c result))\<rparr>"

definition cache_remove :: "World \<Rightarrow> World" where
  "cache_remove w =
     w\<lparr>tokenCache := (case tokenCache w of None \<Rightarrow> None | Some c \<Rightarrow> Some (TokenCache_remove c))\<rparr>"

text \<open>\<^verbatim>\<open>CallbackWorkflow.execute\<close>.\<close>

definition execute ::
  "Imports \<Rightarrow> Connection \<Rightarrow> MongoCredentials \<Rightarrow> JSValue \<Rightarrow> World \<Rightarrow> (error + JSValue) \<times> World" where
  "execute imp connection credentials response w =
     (case getCallback (mechanismProperties credentials) of
        Inl e \<Rightarrow> (Inl e, w)
      | Inr callbackInfo \<Rightarrow>
     (case startAuthentication imp connection credentials response w of
        (Inl e, w1) \<Rightarrow> (Inl e, w1)
      | (Inr startDocument, w1) \<Rightarrow>
     (case member startDocument ''conversationId'' of
        Inl e \<Rightarrow> (Inl e, w1)
      | Inr conversationId \<Rightarrow>
     (case deserialize_payload imp startDocument of
        Inl e \<Rightarrow> (Inl e, w1)
      | Inr idp \<Rightarrow>
     (if cache_hasToken w1
      then (case cache_get w1 of
              Inl e \<Rightarrow> (Inl e, w1)
            | Inr token \<Rightarrow>
                finishAuthentication imp connection credentials token conversationId w1)
      else (case fetchAccessToken connection credentials idp callbackInfo w1 of
              (Inl e, w2) \<Rightarrow> (Inl e, w2)
            | (Inr token, w2) \<Rightarrow>
                finishAuthentication imp connection credentials token conversationId
                  (cache_put token w2)))))))"

text \<open>\<^verbatim>\<open>CallbackWorkflow.reauthenticate\<close>: no prior response is passed on.\<close>

definition reauthenticate ::
  "Imports \<Rightarrow> Connection \<Rightarrow> MongoCredentials \<Rightarrow> World \<Rightarrow> (error + JSValue) \<times> World" where
  "reauthenticate imp connection credentials w =
     execute imp connection credentials JSUndefined (cache_remove w)"

section \<open>The machine workflows\<close>

record AccessToken =
  access_token :: string
  expires_in :: "nat option"

subsection \<open>URLs\<close>

text \<open>
  \<^verbatim>\<open>new URL(s)\<close> for a string without query and fragment, \<^verbatim>\<open>url.searchParams.append\<close>
  and \<^verbatim>\<open>url.toString()\<close>. The query is serialised as
  \<^verbatim>\<open>application/x-www-form-urlencoded\<close>: letters, digits and \<^verbatim>\<open>*-._\<close> stay, a space
  becomes \<^verbatim>\<open>+\<close>, every other byte becomes \<^verbatim>\<open>%XX\<close>.
\<close>

record URL =
  location :: string
  searchParams :: "(string \<times> string) list"

definition URL_new :: "string \<Rightarrow> URL" where
  "URL_new s = \<lparr>location = s, searchParams = []\<rparr>"

definition searchParams_append :: "string \<Rightarrow> string \<Rightarrow> URL \<Rightarrow> URL" where
  "searchParams_append name val url = url\<lparr>searchParams := searchParams url @ [(name, val)]\<rparr>"

definition urlencoded_plain :: "char \<Rightarrow> bool" where
  "urlencoded_plain c =
     (c \<in> set ''ABCDEFGHIJKLMNOPQRSTUVWXYZabcdefghijklmnopqrstuvwxyz0123456789*-._'')"

definition hex_digit :: "nat \<Rightarrow> char" where
  "hex_digit n = ''0123456789ABCDEF'' ! (n mod 16)"

definition urlencode_byte :: "char \<Rightarrow> string" where
  "urlencode_byte c =
     (if urlencoded_plain c then [c]
      else if c = CHR '' '' then ''+''
      else [CHR ''%'', hex_digit (of_char c div 16), hex_digit (of_char c mod 16)])"

definition urlencode :: "string \<Rightarrow> string" where
  "urlencode s = concat (map urlencode_byte s)"

fun urlencoded_serialize :: "(string \<times> string) list \<Rightarrow> string" where
  "urlencoded_serialize [] = []"
| "urlencoded_serialize [(name, val)] = urlencode name @ ''='' @ urlencode val"
| "urlencoded_serialize ((name, val) # ps) =
     urlencode name @ ''='' @ urlencode val @ ''&'' @ urlencoded_serialize ps"

definition URL_toString :: "URL \<Rightarrow> string" where
  "URL_toString url =
     (if searchParams url = [] then location url
      else location url @ ''?'' @ urlencoded_serialize (searchParams url))"

text \<open>
  Reading a value back from its serialised form, as the receiving server does: the
  inverse of \<open>urlencode\<close>.
\<close>

definition hex_value :: "char \<Rightarrow> nat" where
  "hex_value c =
     (let n = of_char c
      in if 48 \<le> n \<and> n \<le> 57 then n - 48
         else if 65 \<le> n \<and> n \<le> 70 then n - 55
         else if 97 \<le> n \<and> n \<le> 102 then n - 87
         else 0)"

fun urldecode :: "string \<Rightarrow> string" where
  "urldecode (c # h # l # cs) =
     (if c = CHR ''%'' then char_of (hex_value h * 16 + hex_value l) # urldecode cs
      else (if c = CHR ''+'' then CHR '' '' else c) # urldecode (h # l # cs))"
| "urldecode (c # cs) = (if c = CHR ''+'' then CHR '' '' else c) # urldecode cs"
| "urldecode [] = []"

subsection \<open>GCP\<close>

definition GCP_BASE_URL :: string where
  "GCP_BASE_URL = ''http://metadata/computeMetadata/v1/instance/service-accounts/default/identity''"

definition GCP_HEADERS :: "(string \<times> string) list" where
  "GCP_HEADERS = [(''Metadata-Flavor'', ''Google'')]"

definition TOKEN_AUDIENCE_MISSING_ERROR :: string where
  "TOKEN_AUDIENCE_MISSING_ERROR =
     ''TOKEN_AUDIENCE must be set in the auth mechanism properties when ENVIRONMENT is gcp.''"

text \<open>
  \<^verbatim>\<open>request\<close> (utils.ts) is the HTTP collaborator: with \<^verbatim>\<open>json: false\<close> it gives the
  body of the response as a string, or fails.
\<close>

type_synonym Http = "string \<Rightarrow> RequestOptions \<Rightarrow> error + string"

definition request :: "Http \<Rightarrow> string \<Rightarrow> RequestOptions \<Rightarrow> World \<Rightarrow> (error + string) \<times> World" where
  "request http url options w = (http url options, w\<lparr>trace := trace w @ [HttpRequest url options]\<rparr>)"

text \<open>\<^verbatim>\<open>getGcpTokenData\<close> (gcp\_machine\_workflow.ts).\<close>

definition getGcpTokenData :: "Http \<Rightarrow> string \<Rightarrow> World \<Rightarrow> (error + AccessToken) \<times> World" where
  "getGcpTokenData http tokenAudience w =
     (let url = URL_new GCP_BASE_URL;
          url = searchParams_append ''audience'' tokenAudience url
      in case request http (URL_toString url) \<lparr>json = False, headers = GCP_HEADERS\<rparr> w of
           (Inl e, w') \<Rightarrow> (Inl e, w')
         | (Inr data, w') \<Rightarrow> (Inr \<lparr>access_token = data, expires_in = None\<rparr>, w'))"

text \<open>
  \<^verbatim>\<open>GCPMachineWorkflow.getToken\<close>. \<^verbatim>\<open>!tokenAudience\<close> holds for an absent credentials
  object, an unset property and the empty string.
\<close>

definition GCPMachineWorkflow_getToken ::
  "Http \<Rightarrow> MongoCredentials option \<Rightarrow> World \<Rightarrow> (error + AccessToken) \<times> World" where
  "GCPMachineWorkflow_getToken http credentials w =
     (let tokenAudience =
            (case credentials of None \<Rightarrow> None
             | Some c \<Rightarrow> TOKEN_AUDIENCE (mechanismProperties c))
      in case tokenAudience of
           None \<Rightarrow> (Inl (MongoGCPError TOKEN_AUDIENCE_MISSING_ERROR), w)
         | Some a \<Rightarrow>
             if a = [] then (Inl (MongoGCPError TOKEN_AUDIENCE_MISSING_ERROR), w)
             else getGcpTokenData http a w)"

subsection \<open>AWS\<close>

definition TOKEN_MISSING_ERROR :: string where
  "TOKEN_MISSING_ERROR = ''AWS_WEB_IDENTITY_TOKEN_FILE must be set in the environment.''"

text \<open>
  The process environment and the file system are collaborators:
  \<^verbatim>\<open>fs.promises.readFile(path, encoding)\<close> gives the whole file as a string, or fails.
\<close>

type_synonym ProcessEnv = "string \<rightharpoonup> string"

type_synonym FileSystem = "string \<Rightarrow> string \<Rightarrow> error + string"

definition readFile :: "FileSystem \<Rightarrow> string \<Rightarrow> string \<Rightarrow> World \<Rightarrow> (error + string) \<times> World" where
  "readFile fs path encoding w = (fs path encoding, w\<lparr>trace := trace w @ [FileRead path encoding]\<rparr>)"

text \<open>\<^verbatim>\<open>AwsMachineWorkflow.getToken\<close> (aws\_machine\_workflow.ts).\<close>

definition AwsMachineWorkflow_getToken ::
  "ProcessEnv \<Rightarrow> FileSystem \<Rightarrow> World \<Rightarrow> (error + AccessToken) \<times> World" where
  "AwsMachineWorkflow_getToken env fs w =
     (let tokenFile = env ''AWS_WEB_IDENTITY_TOKEN_FILE''
      in case tokenFile of
           None \<Rightarrow> (Inl (MongoAWSError TOKEN_MISSING_ERROR), w)
         | Some path \<Rightarrow>
             if path = [] then (Inl (MongoAWSError TOKEN_MISSING_ERROR), w)
             else (case readFile fs path ''utf8'' w of
                     (Inl e, w') \<Rightarrow> (Inl e, w')
                   | (Inr token, w') \<Rightarrow> (Inr \<lparr>access_token = token, expires_in = None\<rparr>, w')))"

section \<open>Observing a run\<close>

text \<open>The number of callback invocations in a trace.\<close>

fun is_callback_call :: "Event \<Rightarrow> bool" where
  "is_callback_call (CallbackInvoked h p) = True"
| "is_callback_call e = False"

definition callbackCalls :: "Event list \<Rightarrow> nat" where
  "callbackCalls evs = length (filter is_callback_call evs)"


text \<open>
  The conditions under which the specification calls a callback result invalid, in its
  words: the result is absent or null, is not a structured value, lacks the field
  \<^verbatim>\<open>accessToken\<close>, or has a field outside the three recognised ones. The fields of
  a value are the properties it has itself.
\<close>

fun is_structured :: "JSValue \<Rightarrow> bool" where
  "is_structured (JSObject ps) = True"
| "is_structured (JSDerived ps proto) = True"
| "is_structured v = False"

fun field_names :: "JSValue \<Rightarrow> string set" where
  "field_names (JSObject ps) = fst ` set ps"
| "field_names (JSDerived ps proto) = fst ` set ps"
| "field_names v = {}"

definition spec_result_invalid :: "JSValue \<Rightarrow> bool" where
  "spec_result_invalid v =
     (v = JSUndefined \<or> v = JSNull
      \<or> \<not> is_structured v
      \<or> ''accessToken'' \<notin> field_names v
      \<or> \<not> field_names v \<subseteq> {''accessToken'', ''expiresInSeconds'', ''refreshToken''})"

text \<open>
  The same conditions with one change: a result has an \<^verbatim>\<open>accessToken\<close> when it has
  the property itself or inherits it from a prototype.
\<close>

definition result_unacceptable :: "JSValue \<Rightarrow> bool" where
  "result_unacceptable v =
     (v = JSUndefined \<or> v = JSNull
      \<or> \<not> is_structured v
      \<or> \<not> has_property ''accessToken'' v
      \<or> \<not> field_names v \<subseteq> {''accessToken'', ''expiresInSeconds'', ''refreshToken''})"

section \<open>A sample conversation\<close>

text \<open>
  Concrete inputs on which the model is run: command builders that produce small
  documents; a server that answers the start command with conversation 7 and the
  descriptor of the identity provider, and accepts the finish command; one that rejects
  the finish command; a callback that returns the token \<^verbatim>\<open>tok1\<close>.
\<close>

definition sample_imports :: Imports where
  "sample_imports =
     \<lparr>startCommandDocument =
        (\<lambda>c. [(''saslStart'', JSNumber 1), (''mechanism'', JSString ''MONGODB-OIDC'')]),
      finishCommandDocument =
        (\<lambda>token cid. [(''saslContinue'', JSNumber 1), (''conversationId'', cid), (''jwt'', token)]),
      ns = (\<lambda>db. db @ ''.$cmd''),
      BSON_deserialize = (\<lambda>buffer. Inr buffer)\<rparr>"

definition sample_start_reply :: JSValue where
  "sample_start_reply =
     JSObject [(''conversationId'', JSNumber 7),
               (''payload'', JSObject [(''buffer'',
                   JSObject [(''issuer'', JSString ''https://idp.example''),
                             (''clientId'', JSString ''abc'')])])]"

definition sample_connection :: Connection where
  "sample_connection history namespace document =
     (if map_of document ''saslStart'' \<noteq> None then Inr sample_start_reply
      else Inr (JSObject [(''ok'', JSNumber 1)]))"

definition rejecting_connection :: Connection where
  "rejecting_connection history namespace document =
     (if map_of document ''saslStart'' \<noteq> None then Inr sample_start_reply
      else Inl (ExternalFailure ''Authentication failed''))"

definition sample_callback :: OIDCCallbackFunction where
  "sample_callback params = Inr (JSObject [(''accessToken'', JSString ''tok1'')])"

definition sample_properties :: AuthMechanismProperties where
  "sample_properties =
     \<lparr>ENVIRONMENT = None, OIDC_CALLBACK = Some sample_callback,
      OIDC_HUMAN_CALLBACK = Some sample_callback, TOKEN_AUDIENCE = None\<rparr>"

definition sample_credentials :: MongoCredentials where
  "sample_credentials = \<lparr>source = ''$external'', mechanismProperties = sample_properties\<rparr>"

definition empty_world :: World where
  "empty_world = \<lparr>tokenCache = Some \<lparr>tokenResult = JSUndefined\<rparr>, trace = []\<rparr>"

text \<open>
  The same world with a token already in the cache; a callback whose result carries an
  unexpected field; credentials, an HTTP endpoint, an environment and a file system for
  the machine workflows.
\<close>

definition cached_world :: World where
  "cached_world =
     \<lparr>tokenCache = Some \<lparr>tokenResult = JSObject [(''accessToken'', JSString ''old'')]\<rparr>,
      trace = []\<rparr>"

definition extra_field_result :: JSValue where
  "extra_field_result = JSObject [(''accessToken'', JSString ''t''), (''extra'', JSNumber 1)]"

definition extra_field_callback :: OIDCCallbackFunction where
  "extra_field_callback params = Inr extra_field_result"

definition extra_field_credentials :: MongoCredentials where
  "extra_field_credentials =
     \<lparr>source = ''$external'',
      mechanismProperties =
        \<lparr>ENVIRONMENT = None, OIDC_CALLBACK = Some extra_field_callback,
         OIDC_HUMAN_CALLBACK = Some sample_callback, TOKEN_AUDIENCE = None\<rparr>\<rparr>"

text \<open>
  A callback whose result has no property of its own and inherits \<^verbatim>\<open>accessToken\<close>
  (\<^verbatim>\<open>Object.create({accessToken: 't'})\<close>), and credentials with no callback at all.
\<close>

definition inherited_token_result :: JSValue where
  "inherited_token_result = JSDerived [] (JSObject [(''accessToken'', JSString ''t'')])"

definition inherited_token_callback :: OIDCCallbackFunction where
  "inherited_token_callback params = Inr inherited_token_result"

definition inherited_token_credentials :: MongoCredentials where
  "inherited_token_credentials =
     \<lparr>source = ''$external'',
      mechanismProperties =
        \<lparr>ENVIRONMENT = None, OIDC_CALLBACK = Some inherited_token_callback,
         OIDC_HUMAN_CALLBACK = Some sample_callback, TOKEN_AUDIENCE = None\<rparr>\<rparr>"

definition no_callback_credentials :: MongoCredentials where
  "no_callback_credentials =
     \<lparr>source = ''$external'',
      mechanismProperties =
        \<lparr>ENVIRONMENT = None, OIDC_CALLBACK = None, OIDC_HUMAN_CALLBACK = None,
         TOKEN_AUDIENCE = None\<rparr>\<rparr>"

definition gcp_credentials :: MongoCredentials where
  "gcp_credentials =
     \<lparr>source = ''$external'',
      mechanismProperties =
        \<lparr>ENVIRONMENT = Some ''gcp'', OIDC_CALLBACK = None, OIDC_HUMAN_CALLBACK = None,
         TOKEN_AUDIENCE = Some ''api://abc''\<rparr>\<rparr>"

definition sample_http :: Http where
  "sample_http url options =
     (if url = GCP_BASE_URL @ ''?audience=api%3A%2F%2Fabc''
         \<and> map_of (headers options) ''Metadata-Flavor'' = Some ''Google''
      then Inr ''gcp-token'' else Inl (ExternalFailure ''not found''))"

definition sample_env :: ProcessEnv where
  "sample_env = [''AWS_WEB_IDENTITY_TOKEN_FILE'' \<mapsto> ''/var/run/token'']"

definition sample_fs :: FileSystem where
  "sample_fs path encoding =
     (if path = ''/var/run/token'' \<and> encoding = ''utf8'' then Inr '' aws-token ''
      else Inl (ExternalFailure ''ENOENT''))"

lemmas workflow_defs =
  execute_def reauthenticate_def getCallback_def startAuthentication_def
  finishAuthentication_def fetchAccessToken_def deserialize_payload_def command_def
  cache_hasToken_def cache_get_def cache_put_def cache_remove_def TokenCache_hasToken_def
  TokenCache_get_def TokenCache_put_def TokenCache_remove_def optional_member_def
  isCallbackResultInvalid_def RESULT_PROPERTIES_def callbackCalls_def Let_def

lemmas sample_defs =
  sample_imports_def sample_start_reply_def sample_connection_def rejecting_connection_def
  sample_callback_def sample_properties_def sample_credentials_def empty_world_def
  cached_world_def extra_field_result_def extra_field_callback_def
  extra_field_credentials_def inherited_token_result_def inherited_token_callback_def
  inherited_token_credentials_def no_callback_credentials_def

section \<open>Callback selection\<close>

lemma getCallback_Inr:
  "getCallback mp = Inr info \<Longrightarrow>
     callback info = OIDC_CALLBACK mp \<and> \<not> unset (OIDC_CALLBACK mp)
     \<and> \<not> unset (OIDC_HUMAN_CALLBACK mp) \<and> \<not> isHumanWorkflow info"
  by (auto simp: getCallback_def split: if_splits)

lemma getCallback_fails_iff:
  "(\<exists>e. getCallback mp = Inl e)
     \<longleftrightarrow> unset (OIDC_CALLBACK mp) \<or> unset (OIDC_HUMAN_CALLBACK mp)"
  by (auto simp: getCallback_def)

text \<open>
  C1. The specification has the machine callback selected whenever it is configured,
  and the selection fail only when neither callback is. In the code the guard of
  \<^verbatim>\<open>getCallback\<close> joins the two tests with \<^verbatim>\<open>||\<close>: with the machine callback
  configured and the human callback not, the selection fails with the
  missing-credentials error.
\<close>

theorem C1_getCallback_rejects_machine_callback_alone:
  "getCallback \<lparr>ENVIRONMENT = None, OIDC_CALLBACK = Some sample_callback,
                 OIDC_HUMAN_CALLBACK = None, TOKEN_AUDIENCE = None\<rparr>
     = Inl (MongoMissingCredentialsError NO_CALLBACK)"
  by (simp add: getCallback_def)

section \<open>Workflow dispatch\<close>

text \<open>
  C2. Dispatch is a function of \<^verbatim>\<open>ENVIRONMENT\<close> alone: unset gives the callback
  workflow; \<^verbatim>\<open>callback\<close>, \<^verbatim>\<open>aws\<close>, \<^verbatim>\<open>azure\<close> and \<^verbatim>\<open>gcp\<close> give the workflow
  registered under that name; any other non-empty value fails with an invalid-argument
  error whose message ends with that value.
\<close>

theorem C2_getWorkflow_dispatch:
  "(ENVIRONMENT (mechanismProperties c) = None \<longrightarrow> getWorkflow c = Inr CallbackWorkflow)
   \<and> (ENVIRONMENT (mechanismProperties c) = Some ''callback'' \<longrightarrow> getWorkflow c = Inr CallbackWorkflow)
   \<and> (ENVIRONMENT (mechanismProperties c) = Some ''aws'' \<longrightarrow> getWorkflow c = Inr AwsMachineWorkflow)
   \<and> (ENVIRONMENT (mechanismProperties c) = Some ''azure'' \<longrightarrow> getWorkflow c = Inr AzureMachineWorkflow)
   \<and> (ENVIRONMENT (mechanismProperties c) = Some ''gcp'' \<longrightarrow> getWorkflow c = Inr GCPMachineWorkflow)
   \<and> (\<forall>name. ENVIRONMENT (mechanismProperties c) = Some name \<and> name \<noteq> []
         \<and> name \<notin> {''callback'', ''aws'', ''azure'', ''gcp''}
        \<longrightarrow> getWorkflow c
              = Inl (MongoInvalidArgumentError (''Could not load workflow for provider '' @ name)))
   \<and> (\<forall>c'. ENVIRONMENT (mechanismProperties c') = ENVIRONMENT (mechanismProperties c)
        \<longrightarrow> getWorkflow c' = getWorkflow c)"
  by (auto simp: getWorkflow_def OIDC_WORKFLOWS_def Let_def)

theorem C2_getWorkflow_dispatch_witness:
  "getWorkflow sample_credentials = Inr CallbackWorkflow
   \<and> getWorkflow gcp_credentials = Inr GCPMachineWorkflow
   \<and> getWorkflow (gcp_credentials\<lparr>mechanismProperties :=
          (mechanismProperties gcp_credentials)\<lparr>ENVIRONMENT := Some ''k8s''\<rparr>\<rparr>)
       = Inl (MongoInvalidArgumentError (''Could not load workflow for provider '' @ ''k8s''))"
proof -
  let ?k8s = "gcp_credentials\<lparr>mechanismProperties :=
                (mechanismProperties gcp_credentials)\<lparr>ENVIRONMENT := Some ''k8s''\<rparr>\<rparr>"
  have a: "ENVIRONMENT (mechanismProperties sample_credentials) = None"
    by (simp add: sample_credentials_def sample_properties_def)
  have b: "ENVIRONMENT (mechanismProperties gcp_credentials) = Some ''gcp''"
    by (simp add: gcp_credentials_def)
  have c: "ENVIRONMENT (mechanismProperties ?k8s) = Some ''k8s'' \<and> ''k8s'' \<noteq> []
           \<and> ''k8s'' \<notin> {''callback'', ''aws'', ''azure'', ''gcp''}"
    by simp
  have 1: "getWorkflow sample_credentials = Inr CallbackWorkflow"
    by (rule C2_getWorkflow_dispatch [of sample_credentials, THEN conjunct1, THEN mp, OF a])
  have 2: "getWorkflow gcp_credentials = Inr GCPMachineWorkflow"
    by (rule C2_getWorkflow_dispatch [of gcp_credentials, THEN conjunct2, THEN conjunct2,
          THEN conjunct2, THEN conjunct2, THEN conjunct1, THEN mp, OF b])
  have 3: "getWorkflow ?k8s
       = Inl (MongoInvalidArgumentError (''Could not load workflow for provider '' @ ''k8s''))"
    by (rule C2_getWorkflow_dispatch [of ?k8s, THEN conjunct2, THEN conjunct2,
          THEN conjunct2, THEN conjunct2, THEN conjunct2, THEN conjunct1, THEN spec,
          THEN mp, OF c])
  show ?thesis
    by (rule conjI [OF 1 conjI [OF 2 3]])
qed

section \<open>Facts about the steps of the conversation\<close>

lemma map_of_set_property:
  "map_of (set_property ps k v) = (map_of ps)(k \<mapsto> v)"
  by (induction ps) auto



lemma plain_result_unacceptable:
  "result_unacceptable (JSObject ps) \<longleftrightarrow> spec_result_invalid (JSObject ps)"
  by (auto simp: result_unacceptable_def spec_result_invalid_def)



lemma TokenCache_update:
  "(c :: TokenCache)\<lparr>tokenResult := v\<rparr> = \<lparr>tokenResult = v\<rparr>"
  by (cases c) simp

lemma cache_remove_world:
  "\<not> cache_hasToken (cache_remove w) \<and> trace (cache_remove w) = trace w"
  by (auto simp: cache_hasToken_def cache_remove_def TokenCache_hasToken_def
        TokenCache_remove_def split: option.splits)

lemma startAuthentication_world:
  "startAuthentication imp connection credentials response w = (r, w') \<Longrightarrow>
     tokenCache w' = tokenCache w \<and> callbackCalls (trace w') = callbackCalls (trace w)"
  by (auto simp: startAuthentication_def command_def callbackCalls_def split: if_splits)

lemma startAuthentication_trace:
  "startAuthentication imp conn cred resp w = (r, w1) \<Longrightarrow>
     tokenCache w1 = tokenCache w
     \<and> (trace w1 = trace w \<or> (\<exists>n d. trace w1 = trace w @ [CommandSent n d]))"
  by (auto simp: startAuthentication_def command_def split: if_splits)

lemma fetchAccessToken_Inr:
  "fetchAccessToken connection credentials idp info w = (Inr token, w') \<Longrightarrow>
     tokenCache w' = tokenCache w \<and> \<not> isCallbackResultInvalid token
     \<and> callbackCalls (trace w') = callbackCalls (trace w) + 1
     \<and> (\<exists>f p. callback info = Some f \<and> f p = Inr token
            \<and> trace w' = trace w @ [CallbackInvoked (isHumanWorkflow info) p])"
  by (auto simp: fetchAccessToken_def Let_def callbackCalls_def
        split: option.splits sum.splits if_splits)


lemma fetchAccessToken_trace:
  "fetchAccessToken conn cred idp info w = (r, w') \<Longrightarrow>
     trace w' = trace w \<or> (\<exists>p. trace w' = trace w @ [CallbackInvoked (isHumanWorkflow info) p])"
  by (auto simp: fetchAccessToken_def Let_def split: option.splits sum.splits if_splits)

lemma finishAuthentication_world:
  "finishAuthentication imp connection credentials token cid w = (r, w') \<Longrightarrow>
     tokenCache w' = tokenCache w \<and> callbackCalls (trace w') = callbackCalls (trace w)"
  by (auto simp: finishAuthentication_def command_def callbackCalls_def split: sum.splits)

lemma finishAuthentication_cases:
  "finishAuthentication imp conn cred token cid w = (r, w') \<Longrightarrow>
     (w' = w \<and> (\<exists>e. r = Inl e \<and> member token ''accessToken'' = Inl e))
     \<or> (\<exists>a. member token ''accessToken'' = Inr a
           \<and> r = conn (trace w) (ns imp (source cred)) (finishCommandDocument imp a cid)
           \<and> tokenCache w' = tokenCache w
           \<and> trace w' = trace w @ [CommandSent (ns imp (source cred)) (finishCommandDocument imp a cid)])"
proof (cases "member token ''accessToken''")
  case (Inl e)
  assume fin: "finishAuthentication imp conn cred token cid w = (r, w')"
  have "finishAuthentication imp conn cred token cid w = (Inl e, w)"
    using Inl by (simp add: finishAuthentication_def)
  with fin have "r = Inl e" "w' = w" by simp_all
  with Inl show ?thesis by blast
next
  case (Inr a)
  assume "finishAuthentication imp conn cred token cid w = (r, w')"
  with Inr show ?thesis by (auto simp: finishAuthentication_def command_def)
qed

lemma finishAuthentication_trace:
  "finishAuthentication imp conn cred token cid w = (r, w') \<Longrightarrow>
     trace w' = trace w \<or> (\<exists>n d. trace w' = trace w @ [CommandSent n d])"
  by (auto dest!: finishAuthentication_cases)


lemma execute_miss_success:
  assumes "\<not> cache_hasToken w" and "execute imp conn cred resp w = (Inr r, w')"
  shows "callbackCalls (trace w') = callbackCalls (trace w) + 1"
  using assms
  unfolding execute_def
  apply (simp split: sum.splits prod.splits if_splits)
  apply (auto dest!: startAuthentication_world fetchAccessToken_Inr finishAuthentication_world
      simp: cache_hasToken_def cache_put_def)
  done

lemma execute_trace:
  assumes "execute imp conn cred resp w = (r, w')"
  shows "\<exists>evs. trace w' = trace w @ evs \<and> (\<forall>p. CallbackInvoked True p \<notin> set evs)"
  using assms
  unfolding execute_def
  apply (simp split: sum.splits prod.splits option.splits if_splits)
  apply (auto dest!: startAuthentication_trace fetchAccessToken_trace finishAuthentication_trace
      getCallback_Inr simp: cache_put_def)
  done

section \<open>Speculative authentication\<close>

text \<open>
  C6. For every credentials object, \<^verbatim>\<open>speculativeAuth\<close> of the callback workflow
  returns (it does not throw) and leaves the world as it was, so no command is sent; the
  document returned has the single key \<^verbatim>\<open>speculativeAuthenticate\<close>, whose value is the
  start command built from the credentials with \<^verbatim>\<open>db\<close> set to
  \<^verbatim>\<open>credentials.source\<close> and every other field unchanged.
\<close>

theorem C6_speculativeAuth_document:
  "\<exists>inner. speculativeAuth imp credentials w
               = (Inr (JSObject [(''speculativeAuthenticate'', JSObject inner)]), w)
           \<and> inner = set_property (startCommandDocument imp credentials) ''db''
                        (JSString (source credentials))
           \<and> member (JSObject inner) ''db'' = Inr (JSString (source credentials))
           \<and> map_of inner = (map_of (startCommandDocument imp credentials))
                               (''db'' \<mapsto> JSString (source credentials))"
  by (simp add: speculativeAuth_def map_of_set_property)

section \<open>Reauthentication\<close>

text \<open>
  C3. For every connection, credentials and world, \<^verbatim>\<open>reauthenticate\<close> is \<^verbatim>\<open>execute\<close>
  without a prior response, run after the cached token has been removed, whatever the
  cache held. The cache holds no token when that run starts, and still none after its
  start step, which is when the token is acquired; what the cache held before has no
  influence on the run; and every successful run invokes the callback (exactly once).
\<close>

theorem C3_reauthenticate_fresh_token:
  "reauthenticate imp conn cred w = execute imp conn cred JSUndefined (cache_remove w)
   \<and> \<not> cache_hasToken (cache_remove w)
   \<and> (\<forall>r w1. startAuthentication imp conn cred JSUndefined (cache_remove w) = (r, w1)
         \<longrightarrow> \<not> cache_hasToken w1)
   \<and> (\<forall>c c'. reauthenticate imp conn cred (w\<lparr>tokenCache := Some c\<rparr>)
              = reauthenticate imp conn cred (w\<lparr>tokenCache := Some c'\<rparr>))
   \<and> (\<forall>r w'. reauthenticate imp conn cred w = (Inr r, w')
         \<longrightarrow> callbackCalls (trace w') = callbackCalls (trace w) + 1)"
proof -
  have a: "reauthenticate imp conn cred w = execute imp conn cred JSUndefined (cache_remove w)"
    by (simp add: reauthenticate_def)
  have b: "\<not> cache_hasToken (cache_remove w)"
    by (simp add: cache_remove_world)
  have b': "\<not> cache_hasToken w1"
    if "startAuthentication imp conn cred JSUndefined (cache_remove w) = (r, w1)" for r w1
    using startAuthentication_world [OF that] b by (simp add: cache_hasToken_def)
  have c: "\<forall>c c'. reauthenticate imp conn cred (w\<lparr>tokenCache := Some c\<rparr>)
              = reauthenticate imp conn cred (w\<lparr>tokenCache := Some c'\<rparr>)"
    by (simp add: reauthenticate_def cache_remove_def TokenCache_remove_def TokenCache_update)
  have d: "\<forall>r w'. reauthenticate imp conn cred w = (Inr r, w')
         \<longrightarrow> callbackCalls (trace w') = callbackCalls (trace w) + 1"
    using execute_miss_success [of "cache_remove w" imp conn cred JSUndefined]
    by (simp add: reauthenticate_def cache_remove_world)
  from a b b' c d show ?thesis by blast
qed

theorem C3_reauthenticate_fresh_token_witness:
  "fst (reauthenticate sample_imports sample_connection sample_credentials cached_world)
     = Inr (JSObject [(''ok'', JSNumber 1)])
   \<and> callbackCalls (trace (snd (reauthenticate sample_imports sample_connection
          sample_credentials cached_world)))
       = callbackCalls (trace cached_world) + 1"
proof -
  let ?run = "reauthenticate sample_imports sample_connection sample_credentials cached_world"
  have ok: "fst ?run = Inr (JSObject [(''ok'', JSNumber 1)])"
    by (simp add: workflow_defs sample_defs)
  then have "?run = (Inr (JSObject [(''ok'', JSNumber 1)]), snd ?run)"
    by (metis prod.collapse)
  with C3_reauthenticate_fresh_token
         [of sample_imports sample_connection sample_credentials cached_world]
  have "callbackCalls (trace (snd ?run)) = callbackCalls (trace cached_world) + 1"
    by blast
  with ok show ?thesis by simp
qed

section \<open>Validation of the callback result\<close>






section \<open>The cache in \<open>execute\<close>\<close>










section \<open>The human callback\<close>

text \<open>
  C9. Whenever \<^verbatim>\<open>getCallback\<close> returns, what it returns is the machine callback
  \<^verbatim>\<open>OIDC_CALLBACK\<close>, which is set, with \<^verbatim>\<open>isHumanWorkflow\<close> false: the branch that
  returns the human callback is never taken. So no run of \<^verbatim>\<open>execute\<close> invokes a
  callback selected as the human one.
\<close>

theorem C9_human_callback_never_selected:
  "(\<forall>info. getCallback mp = Inr info
       \<longrightarrow> callback info = OIDC_CALLBACK mp \<and> \<not> unset (OIDC_CALLBACK mp)
           \<and> isHumanWorkflow info = False)
   \<and> (\<forall>imp conn cred resp w r w' p.
          mechanismProperties cred = mp \<and> execute imp conn cred resp w = (r, w')
          \<longrightarrow> CallbackInvoked True p \<notin> set (drop (length (trace w)) (trace w')))"
proof -
  have "CallbackInvoked True p \<notin> set (drop (length (trace w)) (trace w'))"
    if "execute imp conn cred resp w = (r, w')" for imp conn cred resp w r w' p
    using execute_trace [OF that] by auto
  then show ?thesis
    using getCallback_Inr [of mp] by blast
qed

theorem C9_human_callback_never_selected_witness:
  "(\<exists>info. getCallback sample_properties = Inr info \<and> callback info = Some sample_callback
        \<and> isHumanWorkflow info = False)
   \<and> CallbackInvoked True
         \<lparr>timeoutContext = HUMAN_TIMEOUT_MS, version = OIDC_VERSION, idpInfo = JSNull\<rparr>
       \<notin> set (trace (snd (execute sample_imports sample_connection sample_credentials
                  JSUndefined empty_world)))"
proof -
  let ?run = "execute sample_imports sample_connection sample_credentials JSUndefined empty_world"
  obtain info where g: "getCallback sample_properties = Inr info"
    by (simp add: getCallback_def sample_properties_def)
  from C9_human_callback_never_selected [of sample_properties, THEN conjunct1, THEN spec,
         THEN mp, OF g]
  have 1: "callback info = Some sample_callback \<and> isHumanWorkflow info = False"
    by (simp add: sample_properties_def)
  have r: "mechanismProperties sample_credentials = sample_properties
           \<and> ?run = (fst ?run, snd ?run)"
    by (simp add: sample_credentials_def)
  from C9_human_callback_never_selected [of sample_properties, THEN conjunct2, THEN spec,
         THEN spec, THEN spec, THEN spec, THEN spec, THEN spec, THEN spec, THEN spec,
         THEN mp, OF r]
  have 2: "CallbackInvoked True
             \<lparr>timeoutContext = HUMAN_TIMEOUT_MS, version = OIDC_VERSION, idpInfo = JSNull\<rparr>
           \<notin> set (trace (snd ?run))"
    by (simp add: empty_world_def)
  from g 1 2 show ?thesis by blast
qed

section \<open>The machine workflows: where the token comes from\<close>

lemma hex_value_hex_digit:
  assumes "n < 16"
  shows "hex_value (hex_digit n) = n"
proof -
  from assms have "n \<in> {0, 1, 2, 3, 4, 5, 6, 7, 8, 9, 10, 11, 12, 13, 14, 15}"
    by simp arith
  then show ?thesis
    by (auto simp: hex_value_def hex_digit_def)
qed

lemma char_of_hex_pair:
  "char_of (hex_value (hex_digit (of_char c div 16)) * 16
            + hex_value (hex_digit (of_char c mod 16)) :: nat) = c"
proof -
  have "(of_char c :: nat) div 16 < 16"
    by (rule less_mult_imp_div_less) simp
  then show ?thesis
    by (simp add: hex_value_hex_digit)
qed

lemma urldecode_other:
  "c \<noteq> CHR ''%'' \<Longrightarrow>
     urldecode (c # cs) = (if c = CHR ''+'' then CHR '' '' else c) # urldecode cs"
  by (cases "(c # cs)" rule: urldecode.cases) auto

lemma plain_not_special:
  "urlencoded_plain c \<Longrightarrow> c \<noteq> CHR ''%'' \<and> c \<noteq> CHR ''+''"
  by (auto simp: urlencoded_plain_def)

lemma urldecode_urlencode_byte:
  "urldecode (urlencode_byte c @ rest) = c # urldecode rest"
  by (auto simp: urlencode_byte_def urldecode_other char_of_hex_pair dest: plain_not_special)

lemma urldecode_urlencode_append:
  "urldecode (urlencode s @ rest) = s @ urldecode rest"
  by (induction s) (simp_all add: urlencode_def urldecode_urlencode_byte)

lemma urldecode_urlencode:
  "urldecode (urlencode s) = s"
  using urldecode_urlencode_append [of s "[]"] by simp

lemma urlencode_audience:
  "urlencode ''audience'' = ''audience''"
  by (simp add: urlencode_def urlencode_byte_def urlencoded_plain_def)

lemma GCP_url:
  "URL_toString (searchParams_append ''audience'' a (URL_new GCP_BASE_URL))
     = GCP_BASE_URL @ ''?audience='' @ urlencode a"
  by (simp add: URL_toString_def URL_new_def searchParams_append_def urlencode_audience)

lemma urlencode_sample_audience:
  "urlencode ''api://abc'' = ''api%3A%2F%2Fabc''"
  by (simp add: urlencode_def urlencode_byte_def urlencoded_plain_def hex_digit_def)

text \<open>
  C7. GCP. With \<^verbatim>\<open>TOKEN_AUDIENCE\<close> not set (the code treats the empty string as not
  set) \<^verbatim>\<open>getToken\<close> fails with the error that names the missing property and the
  world is as before: no request was issued. With \<^verbatim>\<open>TOKEN_AUDIENCE\<close> set, exactly one
  request is issued: its URL is the metadata URL with the query \<^verbatim>\<open>audience=\<close> followed
  by the encoded value, which decodes to the configured value; its only header is
  \<^verbatim>\<open>Metadata-Flavor: Google\<close>; and the body of the response is the \<^verbatim>\<open>access_token\<close>
  returned (a failed request is the failure of \<^verbatim>\<open>getToken\<close>).
\<close>

theorem C7_gcp_getToken:
  "(TOKEN_AUDIENCE (mechanismProperties c) = None \<or> TOKEN_AUDIENCE (mechanismProperties c) = Some []
      \<longrightarrow> GCPMachineWorkflow_getToken http (Some c) w
            = (Inl (MongoGCPError TOKEN_AUDIENCE_MISSING_ERROR), w))
   \<and> (\<forall>a. TOKEN_AUDIENCE (mechanismProperties c) = Some a \<and> a \<noteq> []
        \<longrightarrow> (\<exists>url options.
               url = GCP_BASE_URL @ ''?audience='' @ urlencode a
               \<and> urldecode (urlencode a) = a
               \<and> options = \<lparr>json = False, headers = [(''Metadata-Flavor'', ''Google'')]\<rparr>
               \<and> GCPMachineWorkflow_getToken http (Some c) w
                   = (case http url options of
                        Inl e \<Rightarrow> Inl e
                      | Inr body \<Rightarrow> Inr \<lparr>access_token = body, expires_in = None\<rparr>,
                      w\<lparr>trace := trace w @ [HttpRequest url options]\<rparr>)))"
  by (auto simp: GCPMachineWorkflow_getToken_def getGcpTokenData_def request_def GCP_url
        GCP_HEADERS_def urldecode_urlencode Let_def split: sum.splits)

theorem C7_gcp_getToken_witness:
  "GCPMachineWorkflow_getToken sample_http (Some gcp_credentials) empty_world
     = (Inr \<lparr>access_token = ''gcp-token'', expires_in = None\<rparr>,
        empty_world\<lparr>trace :=
          [HttpRequest (GCP_BASE_URL @ ''?audience=api%3A%2F%2Fabc'')
             \<lparr>json = False, headers = [(''Metadata-Flavor'', ''Google'')]\<rparr>]\<rparr>)
   \<and> GCPMachineWorkflow_getToken sample_http (Some sample_credentials) empty_world
       = (Inl (MongoGCPError TOKEN_AUDIENCE_MISSING_ERROR), empty_world)"
proof -
  have a: "TOKEN_AUDIENCE (mechanismProperties gcp_credentials) = Some ''api://abc''
           \<and> ''api://abc'' \<noteq> []"
    by (simp add: gcp_credentials_def)
  have b: "TOKEN_AUDIENCE (mechanismProperties sample_credentials) = None
           \<or> TOKEN_AUDIENCE (mechanismProperties sample_credentials) = Some []"
    by (simp add: sample_credentials_def sample_properties_def)
  have 1: "GCPMachineWorkflow_getToken sample_http (Some sample_credentials) empty_world
       = (Inl (MongoGCPError TOKEN_AUDIENCE_MISSING_ERROR), empty_world)"
    by (rule C7_gcp_getToken [of sample_credentials sample_http empty_world,
          THEN conjunct1, THEN mp, OF b])
  from C7_gcp_getToken [of gcp_credentials sample_http empty_world,
          THEN conjunct2, THEN spec, THEN mp, OF a]
  have 2: "GCPMachineWorkflow_getToken sample_http (Some gcp_credentials) empty_world
     = (Inr \<lparr>access_token = ''gcp-token'', expires_in = None\<rparr>,
        empty_world\<lparr>trace :=
          [HttpRequest (GCP_BASE_URL @ ''?audience=api%3A%2F%2Fabc'')
             \<lparr>json = False, headers = [(''Metadata-Flavor'', ''Google'')]\<rparr>]\<rparr>)"
    by (simp add: urlencode_sample_audience sample_http_def empty_world_def)
  show ?thesis
    by (rule conjI [OF 2 1])
qed

text \<open>
  C8. AWS. With \<^verbatim>\<open>AWS_WEB_IDENTITY_TOKEN_FILE\<close> unset or empty, \<^verbatim>\<open>getToken\<close> fails
  with the AWS error for the missing variable and the world is as before: no file was
  read. With the variable set, the file it names is read once as \<^verbatim>\<open>utf8\<close>, and its
  contents, unchanged, are the \<^verbatim>\<open>access_token\<close> returned.
\<close>

theorem C8_aws_getToken:
  "(env ''AWS_WEB_IDENTITY_TOKEN_FILE'' = None \<or> env ''AWS_WEB_IDENTITY_TOKEN_FILE'' = Some []
      \<longrightarrow> AwsMachineWorkflow_getToken env fs w = (Inl (MongoAWSError TOKEN_MISSING_ERROR), w))
   \<and> (\<forall>path contents.
         env ''AWS_WEB_IDENTITY_TOKEN_FILE'' = Some path \<and> path \<noteq> []
         \<and> fs path ''utf8'' = Inr contents
        \<longrightarrow> AwsMachineWorkflow_getToken env fs w
              = (Inr \<lparr>access_token = contents, expires_in = None\<rparr>,
                 w\<lparr>trace := trace w @ [FileRead path ''utf8'']\<rparr>))"
  by (auto simp: AwsMachineWorkflow_getToken_def readFile_def Let_def)

theorem C8_aws_getToken_witness:
  "AwsMachineWorkflow_getToken sample_env sample_fs empty_world
     = (Inr \<lparr>access_token = '' aws-token '', expires_in = None\<rparr>,
        empty_world\<lparr>trace := [FileRead ''/var/run/token'' ''utf8'']\<rparr>)
   \<and> AwsMachineWorkflow_getToken Map.empty sample_fs empty_world
       = (Inl (MongoAWSError TOKEN_MISSING_ERROR), empty_world)"
proof -
  have a: "sample_env ''AWS_WEB_IDENTITY_TOKEN_FILE'' = Some ''/var/run/token''
           \<and> ''/var/run/token'' \<noteq> []
           \<and> sample_fs ''/var/run/token'' ''utf8'' = Inr '' aws-token ''"
    by (simp add: sample_env_def sample_fs_def)
  have b: "(Map.empty :: ProcessEnv) ''AWS_WEB_IDENTITY_TOKEN_FILE'' = None
           \<or> (Map.empty :: ProcessEnv) ''AWS_WEB_IDENTITY_TOKEN_FILE'' = Some []"
    by simp
  have 1: "AwsMachineWorkflow_getToken Map.empty sample_fs empty_world
       = (Inl (MongoAWSError TOKEN_MISSING_ERROR), empty_world)"
    by (rule C8_aws_getToken [of Map.empty sample_fs empty_world, THEN conjunct1, THEN mp, OF b])
  from C8_aws_getToken [of sample_env sample_fs empty_world,
          THEN conjunct2, THEN spec, THEN spec, THEN mp, OF a]
  have 2: "AwsMachineWorkflow_getToken sample_env sample_fs empty_world
     = (Inr \<lparr>access_token = '' aws-token '', expires_in = None\<rparr>,
        empty_world\<lparr>trace := [FileRead ''/var/run/token'' ''utf8'']\<rparr>)"
    by (simp add: empty_world_def)
  show ?thesis
    by (rule conjI [OF 2 1])
qed

end
